theory Spec2Isabelle
  imports Complex_Main "HOL-Library.Word"
begin

section \<open>Data model of the WebRTC context provider\<close>

text \<open>
  The development embeds the provider component of the peer-to-peer file sharing client
  (\<^verbatim>\<open>WebRTCProvider\<close>): its signalling-socket handler, the negotiation helpers, the
  sender loop of \<^verbatim>\<open>startFileTransfer\<close> and the receiving handler installed by
  \<^verbatim>\<open>setupDataChannel\<close>.

  Conventions.
  \<^item> The React state cells and the \<^verbatim>\<open>useRef\<close> cells are the fields of one record,
    \<open>world\<close>; a handler takes the world and returns the updated one.
  \<^item> The closure variables \<^verbatim>\<open>ws\<close>, \<^verbatim>\<open>user\<close> and \<^verbatim>\<open>token\<close> are explicit leading
    arguments of every function that reads them. A function stored in an event handler
    keeps the values of the render in which the handler was installed.
  \<^item> Calls that leave the component (socket and channel sends, toasts, the download click,
    the \<^verbatim>\<open>fetch\<close>, timers, object creation by the browser) are appended to the
    \<open>effects\<close> trace in program order. Diagnostic \<^verbatim>\<open>console.log\<close> calls are not traced.
  \<^item> A handler returns \<open>(None, w)\<close> when it completes and \<open>(Some e, w)\<close> when it throws
    \<open>e\<close>; the world returned with an exception holds the mutations made before the throw.
  \<^item> Values chosen by the browser (the session descriptions produced by
    \<^verbatim>\<open>createOffer\<close>/\<^verbatim>\<open>createAnswer\<close>, whether the open event or the timer comes first,
    whether \<^verbatim>\<open>fetch\<close> resolves or rejects) are arguments.
  \<^item> Each handler runs without interleaving: no other event changes the world between
    two of its statements, file reads succeed, and binary frames are \<^verbatim>\<open>ArrayBuffer\<close>s.
\<close>

type_synonym user_id = nat
type_synonym socket = nat
type_synonym sdp = string
type_synonym candidate = string
type_synonym bytes = "8 word list"

record user =
  u_id :: user_id
  u_username :: string

text \<open>A \<^verbatim>\<open>File\<close>: \<^verbatim>\<open>file.size\<close> is the length of its content.\<close>

record jsfile =
  f_name :: string
  f_type :: string
  f_content :: bytes

definition f_size :: "jsfile \<Rightarrow> nat" where
  "f_size f = length (f_content f)"

text \<open>\<^verbatim>\<open>Blob.slice(a, b)\<close> for \<open>a \<le> b\<close>; both ends are clamped to the content.\<close>

definition file_slice :: "jsfile \<Rightarrow> nat \<Rightarrow> nat \<Rightarrow> bytes" where
  "file_slice f a b = take (b - a) (drop a (f_content f))"

definition CHUNK_SIZE :: nat where
  "CHUNK_SIZE = 16384"

text \<open>
  The numbers the progress computation can produce. Byte counts are natural numbers and
  the quotient of two of them is exact here; what IEEE arithmetic adds for a zero divisor
  is kept: \<^verbatim>\<open>0/0\<close> is \<^verbatim>\<open>NaN\<close> and \<^verbatim>\<open>x/0\<close> is \<^verbatim>\<open>Infinity\<close> for \<open>x > 0\<close>.
\<close>

datatype jsnum = Num rat | PosInf | NaN

text \<open>\<^verbatim>\<open>(x / y) * 100\<close> for a byte count \<open>x\<close>.\<close>

definition js_percent :: "nat \<Rightarrow> int \<Rightarrow> jsnum" where
  "js_percent x y =
     (if y = 0 then (if x = 0 then NaN else PosInf)
      else Num (rat_of_nat x / rat_of_int y * 100))"

text \<open>\<^verbatim>\<open>Math.min(p, 100)\<close>: \<^verbatim>\<open>NaN\<close> if an argument is \<^verbatim>\<open>NaN\<close>.\<close>

fun js_min100 :: "jsnum \<Rightarrow> jsnum" where
  "js_min100 (Num r) = Num (min r 100)"
| "js_min100 PosInf = Num 100"
| "js_min100 NaN = NaN"

text \<open>The comparison \<^verbatim>\<open>a <= b\<close> of two such numbers; every comparison with \<^verbatim>\<open>NaN\<close> is false.\<close>

fun js_le :: "jsnum \<Rightarrow> jsnum \<Rightarrow> bool" where
  "js_le (Num a) (Num b) = (a \<le> b)"
| "js_le (Num a) PosInf = True"
| "js_le PosInf PosInf = True"
| "js_le PosInf (Num b) = False"
| "js_le NaN b = False"
| "js_le a NaN = False"

datatype direction = Sending | Receiving

text \<open>
  The object held in \<^verbatim>\<open>activeTransfer\<close>. A property the object does not have is \<open>None\<close>:
  the receiving side stores no file and no target, and \<^verbatim>\<open>{...null, progress: p}\<close> has
  the progress only.
\<close>

record transfer =
  t_fileName :: "string option"
  t_fileSize :: "int option"
  t_progress :: jsnum
  t_type :: "direction option"
  t_file :: "jsfile option"
  t_targetUserId :: "user_id option"

record incoming =
  i_from :: user_id
  i_from_username :: string
  i_fileName :: string
  i_fileSize :: int
  i_fileType :: string

record meta =
  m_fileName :: string
  m_fileSize :: int
  m_fileType :: string
  m_senderId :: user_id

record log_record =
  l_fileName :: string
  l_fileSize :: int
  l_fileType :: string
  l_sender_id :: user_id
  l_receiver_id :: "user_id option"

text \<open>
  A message delivered by the signalling socket, after \<^verbatim>\<open>JSON.parse\<close>. The constructors
  stand for the values of \<^verbatim>\<open>message.type\<close> that the \<^verbatim>\<open>switch\<close> distinguishes:
  \<^verbatim>\<open>room_users\<close>, \<^verbatim>\<open>room_joined\<close>, \<^verbatim>\<open>room_left\<close>, \<^verbatim>\<open>transfer-request\<close>,
  \<^verbatim>\<open>transfer-response\<close>, \<^verbatim>\<open>offer\<close>, \<^verbatim>\<open>answer\<close>, \<^verbatim>\<open>ice-candidate\<close>; any other type
  is \<open>OtherMsg\<close>.
\<close>

datatype sig_msg =
    RoomUsers "user list"
  | RoomJoined string
  | RoomLeft
  | TransferRequest user_id string string int string
  | TransferResponse user_id bool
  | Offer user_id sdp
  | Answer user_id sdp
  | IceCandidate user_id "candidate option"
  | OtherMsg string

text \<open>The messages the component writes to the signalling socket, with their target.\<close>

datatype ws_out =
    OutTransferRequest user_id string int string
  | OutTransferResponse user_id bool
  | OutOffer user_id sdp
  | OutAnswer user_id sdp

text \<open>Frames of the data channel: a parsed text frame or a binary frame.\<close>

datatype ctrl = FileMeta meta | FileEnd | OtherCtrl string

datatype frame = TextFrame ctrl | BinaryFrame bytes

datatype ready_state = Connecting | Opened | Closing | Closed

record pconn =
  pc_id :: nat
  pc_target :: user_id
  remoteDescription :: "sdp option"
  localDescription :: "sdp option"
  iceCandidates :: "candidate list"

record dchan =
  ch_id :: nat
  ch_label :: string
  readyState :: ready_state

datatype error = TypeError string | InvalidStateError string

datatype timer_action = RejectOpenWait | ClearActiveTransfer

datatype effect =
    WsSend socket ws_out
  | ChanSend nat frame
  | ToastSuccess string
  | ToastError string
  | ToastInfo string
  | ConsoleError string
  | Download string string bytes
  | FetchPost log_record string
  | SetTimeout nat timer_action
  | AddOpenListener nat
  | NewPeerConnection nat
  | CreateDataChannel nat nat string

datatype wait_outcome = ChannelOpened | TimerFired

datatype fetch_outcome = FetchResolved nat | FetchRejected

record world =
  ws_state :: "socket option"
  onlineUsers :: "user list"
  currentRoom :: "string option"
  incomingTransfer :: "incoming option"
  activeTransfer :: "transfer option"
  peerConnectionRef :: "pconn option"
  dataChannelRef :: "dchan option"
  receivedBufferRef :: "bytes list"
  receivedSizeRef :: nat
  transferMetaRef :: "meta option"
  next_id :: nat
  effects :: "effect list"

text \<open>The state of a freshly mounted provider: every \<^verbatim>\<open>useState\<close> and \<^verbatim>\<open>useRef\<close> initial value.\<close>

definition initial_world :: world where
  "initial_world =
     \<lparr>ws_state = None, onlineUsers = [], currentRoom = None, incomingTransfer = None,
      activeTransfer = None, peerConnectionRef = None, dataChannelRef = None,
      receivedBufferRef = [], receivedSizeRef = 0, transferMetaRef = None,
      next_id = 0, effects = []\<rparr>"

definition emit :: "effect \<Rightarrow> world \<Rightarrow> world" where
  "emit e w = w\<lparr>effects := effects w @ [e]\<rparr>"

section \<open>Negotiation helpers\<close>

text \<open>
  \<^verbatim>\<open>createPeerConnection\<close>: a new connection object replaces the one in
  \<^verbatim>\<open>peerConnectionRef\<close>; \<open>next_id\<close> counts the objects the browser has allocated.
\<close>

definition createPeerConnection :: "user_id \<Rightarrow> world \<Rightarrow> world" where
  "createPeerConnection targetUserId w =
     w\<lparr>peerConnectionRef :=
          Some \<lparr>pc_id = next_id w, pc_target = targetUserId, remoteDescription = None,
                localDescription = None, iceCandidates = []\<rparr>,
       next_id := Suc (next_id w),
       effects := effects w @ [NewPeerConnection (next_id w)]\<rparr>"

definition update_pc :: "(pconn \<Rightarrow> pconn) \<Rightarrow> world \<Rightarrow> world" where
  "update_pc g w = w\<lparr>peerConnectionRef := map_option g (peerConnectionRef w)\<rparr>"

text \<open>\<^verbatim>\<open>ws.send(...)\<close>: reading \<^verbatim>\<open>send\<close> of \<^verbatim>\<open>null\<close> throws a \<^verbatim>\<open>TypeError\<close>.\<close>

definition ws_send :: "socket option \<Rightarrow> ws_out \<Rightarrow> world \<Rightarrow> error option \<times> world" where
  "ws_send ws m w =
     (case ws of
        None \<Rightarrow> (Some (TypeError ''Cannot read properties of null (reading send)''), w)
      | Some sock \<Rightarrow> (None, emit (WsSend sock m) w))"

definition createOffer :: "socket option \<Rightarrow> sdp \<Rightarrow> user_id \<Rightarrow> world \<Rightarrow> error option \<times> world" where
  "createOffer ws offer targetUserId w =
     (let w1 = createPeerConnection targetUserId w;
          w2 = w1\<lparr>dataChannelRef :=
                     Some \<lparr>ch_id = next_id w1, ch_label = ''fileTransfer'',
                           readyState = Connecting\<rparr>,
                   next_id := Suc (next_id w1),
                   effects := effects w1 @
                     [CreateDataChannel (next_id w) (next_id w1) ''fileTransfer'']\<rparr>;
          w3 = update_pc (\<lambda>pc. pc\<lparr>localDescription := Some offer\<rparr>) w2
      in ws_send ws (OutOffer targetUserId offer) w3)"

definition handleOffer :: "socket option \<Rightarrow> sdp \<Rightarrow> user_id \<Rightarrow> sdp \<Rightarrow> world \<Rightarrow> error option \<times> world" where
  "handleOffer ws answer from offer w =
     (let w1 = createPeerConnection from w;
          w2 = update_pc (\<lambda>pc. pc\<lparr>remoteDescription := Some offer\<rparr>) w1;
          w3 = update_pc (\<lambda>pc. pc\<lparr>localDescription := Some answer\<rparr>) w2
      in ws_send ws (OutAnswer from answer) w3)"

definition handleAnswer :: "sdp \<Rightarrow> world \<Rightarrow> error option \<times> world" where
  "handleAnswer answer w =
     (case peerConnectionRef w of
        None \<Rightarrow> (Some (TypeError ''Cannot read properties of null (reading setRemoteDescription)''), w)
      | Some pc \<Rightarrow> (None, update_pc (\<lambda>pc. pc\<lparr>remoteDescription := Some answer\<rparr>) w))"

text \<open>
  \<^verbatim>\<open>handleIceCandidate\<close>. The browser's \<^verbatim>\<open>addIceCandidate\<close> is taken by its contract:
  it rejects with \<^verbatim>\<open>InvalidStateError\<close> while the connection has no remote description
  and otherwise records the candidate.
\<close>

definition handleIceCandidate :: "candidate option \<Rightarrow> world \<Rightarrow> error option \<times> world" where
  "handleIceCandidate cand w =
     (case peerConnectionRef w of
        None \<Rightarrow> (None, w)
      | Some pc \<Rightarrow>
          (case cand of
             None \<Rightarrow> (None, w)
           | Some c \<Rightarrow>
               (case remoteDescription pc of
                  None \<Rightarrow> (Some (InvalidStateError ''The remote description was null''), w)
                | Some d \<Rightarrow>
                    (None, update_pc (\<lambda>pc. pc\<lparr>iceCandidates := iceCandidates pc @ [c]\<rparr>) w))))"

section \<open>The signalling socket\<close>

text \<open>
  \<^verbatim>\<open>socket.onmessage\<close>. \<open>ws\<close> and \<open>user\<close> are the closure variables of the render that
  called \<^verbatim>\<open>connectWebSocket\<close>; \<open>desc\<close> is the description the browser produces if the
  message leads to \<^verbatim>\<open>createOffer\<close> or \<^verbatim>\<open>createAnswer\<close>.
\<close>

definition socket_onmessage ::
    "socket option \<Rightarrow> user \<Rightarrow> sdp \<Rightarrow> world \<Rightarrow> sig_msg \<Rightarrow> error option \<times> world" where
  "socket_onmessage ws user desc w message =
     (case message of
        RoomUsers users \<Rightarrow>
          (None, w\<lparr>onlineUsers := filter (\<lambda>u. u_id u \<noteq> u_id user) users\<rparr>)
      | RoomJoined room_id \<Rightarrow>
          (None, emit (ToastSuccess (''Joined room: '' @ room_id))
                   (w\<lparr>currentRoom := Some room_id\<rparr>))
      | RoomLeft \<Rightarrow>
          (None, emit (ToastInfo ''Left the room'')
                   (w\<lparr>currentRoom := None, onlineUsers := []\<rparr>))
      | TransferRequest from from_username fileName fileSize fileType \<Rightarrow>
          (None, w\<lparr>incomingTransfer :=
                     Some \<lparr>i_from = from, i_from_username = from_username,
                           i_fileName = fileName, i_fileSize = fileSize,
                           i_fileType = fileType\<rparr>\<rparr>)
      | TransferResponse from accepted \<Rightarrow>
          (if accepted then createOffer ws desc from w
           else (None, (emit (ToastError ''Transfer rejected by recipient'') w)
                         \<lparr>activeTransfer := None\<rparr>))
      | Offer from offer \<Rightarrow> handleOffer ws desc from offer w
      | Answer from answer \<Rightarrow> handleAnswer answer w
      | IceCandidate from cand \<Rightarrow> handleIceCandidate cand w
      | OtherMsg ty \<Rightarrow> (None, w))"

text \<open>\<^verbatim>\<open>socket.onopen\<close> and \<^verbatim>\<open>socket.onclose\<close> set the \<^verbatim>\<open>ws\<close> state cell.\<close>

definition socket_onopen :: "socket \<Rightarrow> world \<Rightarrow> world" where
  "socket_onopen sock w = w\<lparr>ws_state := Some sock\<rparr>"

definition socket_onclose :: "world \<Rightarrow> world" where
  "socket_onclose w = w\<lparr>ws_state := None\<rparr>"

text \<open>
  \<^verbatim>\<open>connectWebSocket\<close>, called by the mount effect in a render of world \<open>r\<close>: the
  \<^verbatim>\<open>onmessage\<close> handler it installs closes over that render's \<^verbatim>\<open>ws\<close> and \<^verbatim>\<open>user\<close>.
  The effect depends on \<^verbatim>\<open>[token, user]\<close> only, so the handler is not replaced when
  \<^verbatim>\<open>setWs\<close> later changes the state cell.
\<close>

definition connectWebSocket ::
    "world \<Rightarrow> user \<Rightarrow> (sdp \<Rightarrow> world \<Rightarrow> sig_msg \<Rightarrow> error option \<times> world)" where
  "connectWebSocket r user = socket_onmessage (ws_state r) user"

section \<open>The transfer handshake\<close>

definition sendFile :: "socket option \<Rightarrow> jsfile option \<Rightarrow> user_id \<Rightarrow> world \<Rightarrow> world" where
  "sendFile ws fl targetUserId w =
     (case ws of
        None \<Rightarrow> w
      | Some sock \<Rightarrow>
          (case fl of
             None \<Rightarrow> w
           | Some f \<Rightarrow>
               (emit (WsSend sock (OutTransferRequest targetUserId (f_name f)
                                      (int (f_size f)) (f_type f))) w)
                 \<lparr>activeTransfer :=
                    Some \<lparr>t_fileName = Some (f_name f), t_fileSize = Some (int (f_size f)),
                          t_progress = Num 0, t_type = Some Sending, t_file = Some f,
                          t_targetUserId = Some targetUserId\<rparr>\<rparr>))"

definition acceptTransfer :: "socket option \<Rightarrow> world \<Rightarrow> world" where
  "acceptTransfer ws w =
     (case incomingTransfer w of
        None \<Rightarrow> w
      | Some inc \<Rightarrow>
          (case ws of
             None \<Rightarrow> w
           | Some sock \<Rightarrow>
               (emit (WsSend sock (OutTransferResponse (i_from inc) True)) w)
                 \<lparr>incomingTransfer := None\<rparr>))"

definition rejectTransfer :: "socket option \<Rightarrow> world \<Rightarrow> world" where
  "rejectTransfer ws w =
     (case incomingTransfer w of
        None \<Rightarrow> w
      | Some inc \<Rightarrow>
          (case ws of
             None \<Rightarrow> w
           | Some sock \<Rightarrow>
               (emit (WsSend sock (OutTransferResponse (i_from inc) False)) w)
                 \<lparr>incomingTransfer := None\<rparr>))"

fun is_offer :: "effect \<Rightarrow> bool" where
  "is_offer (WsSend sock (OutOffer t d)) = True"
| "is_offer e = False"

fun is_ws_send :: "effect \<Rightarrow> bool" where
  "is_ws_send (WsSend sock m) = True"
| "is_ws_send e = False"

section \<open>Persistence of a completed transfer\<close>

text \<open>
  \<^verbatim>\<open>logTransfer\<close>: one \<^verbatim>\<open>fetch\<close>; a rejection is caught and written to the console, a
  resolved response is not inspected. The function itself never throws. The call of
  \<^verbatim>\<open>fetch\<close> happens when \<^verbatim>\<open>logTransfer\<close> is called; what follows the \<^verbatim>\<open>await\<close>
  happens when the request settles.
\<close>

definition logTransfer_start :: "string \<Rightarrow> log_record \<Rightarrow> world \<Rightarrow> world" where
  "logTransfer_start token transferData w = emit (FetchPost transferData token) w"

definition logTransfer_settle :: "fetch_outcome \<Rightarrow> world \<Rightarrow> world" where
  "logTransfer_settle fo w =
     (case fo of
        FetchResolved status \<Rightarrow> w
      | FetchRejected \<Rightarrow> emit (ConsoleError ''Failed to log transfer:'') w)"

text \<open>\<^verbatim>\<open>await logTransfer(...)\<close>: the caller resumes after the request has settled.\<close>

definition logTransfer :: "string \<Rightarrow> fetch_outcome \<Rightarrow> log_record \<Rightarrow> world \<Rightarrow> world" where
  "logTransfer token fo transferData w =
     logTransfer_settle fo (logTransfer_start token transferData w)"

fun is_fetch :: "effect \<Rightarrow> bool" where
  "is_fetch (FetchPost r t) = True"
| "is_fetch e = False"

fun is_console :: "effect \<Rightarrow> bool" where
  "is_console (ConsoleError s) = True"
| "is_console e = False"

section \<open>The receiving side of the data channel\<close>

text \<open>\<^verbatim>\<open>setActiveTransfer(prev => ({...prev, progress: p}))\<close>.\<close>

definition set_progress :: "transfer option \<Rightarrow> jsnum \<Rightarrow> transfer" where
  "set_progress prev p =
     (case prev of
        None \<Rightarrow> \<lparr>t_fileName = None, t_fileSize = None, t_progress = p, t_type = None,
                  t_file = None, t_targetUserId = None\<rparr>
      | Some t \<Rightarrow> t\<lparr>t_progress := p\<rparr>)"

text \<open>
  The \<^verbatim>\<open>file-end\<close> branch up to \<^verbatim>\<open>setActiveTransfer(null)\<close>: the blob of all buffered
  segments is handed to the download link, the success toast is shown and the active
  transfer is cleared.
\<close>

definition file_end_complete :: "meta \<Rightarrow> world \<Rightarrow> world" where
  "file_end_complete m w =
     (emit (ToastSuccess ''File received successfully!'')
        (emit (Download (m_fileName m) (m_fileType m) (concat (receivedBufferRef w))) w))
       \<lparr>activeTransfer := None\<rparr>"

text \<open>
  \<^verbatim>\<open>channel.onmessage\<close> as installed by \<^verbatim>\<open>setupDataChannel\<close>. Reading a property of
  \<^verbatim>\<open>transferMetaRef.current\<close> while it is \<^verbatim>\<open>null\<close> throws.
\<close>

definition channel_onmessage ::
    "user \<Rightarrow> string \<Rightarrow> fetch_outcome \<Rightarrow> world \<Rightarrow> frame \<Rightarrow> error option \<times> world" where
  "channel_onmessage user token fo w fr =
     (case fr of
        TextFrame message \<Rightarrow>
          (case message of
             FileMeta m \<Rightarrow>
               (None, w\<lparr>transferMetaRef := Some m,
                        receivedBufferRef := [],
                        receivedSizeRef := 0,
                        activeTransfer :=
                          Some \<lparr>t_fileName = Some (m_fileName m),
                                t_fileSize = Some (m_fileSize m),
                                t_progress = Num 0, t_type = Some Receiving,
                                t_file = None, t_targetUserId = None\<rparr>\<rparr>)
           | FileEnd \<Rightarrow>
               (case transferMetaRef w of
                  None \<Rightarrow> (Some (TypeError ''Cannot read properties of null (reading fileType)''), w)
                | Some m \<Rightarrow>
                    (None, logTransfer token fo
                             \<lparr>l_fileName = m_fileName m, l_fileSize = m_fileSize m,
                              l_fileType = m_fileType m, l_sender_id = m_senderId m,
                              l_receiver_id = Some (u_id user)\<rparr>
                             (file_end_complete m w)))
           | OtherCtrl ty \<Rightarrow> (None, w))
      | BinaryFrame d \<Rightarrow>
          (let w1 = w\<lparr>receivedBufferRef := receivedBufferRef w @ [d],
                      receivedSizeRef := receivedSizeRef w + length d\<rparr>
           in case transferMetaRef w1 of
                None \<Rightarrow> (Some (TypeError ''Cannot read properties of null (reading fileSize)''), w1)
              | Some m \<Rightarrow>
                  (None, w1\<lparr>activeTransfer :=
                              Some (set_progress (activeTransfer w1)
                                      (js_min100 (js_percent (receivedSizeRef w1)
                                                             (m_fileSize m))))\<rparr>)))"

text \<open>Frames arrive one event at a time; a handler that throws does not stop later events.\<close>

fun receive_frames :: "user \<Rightarrow> string \<Rightarrow> fetch_outcome \<Rightarrow> world \<Rightarrow> frame list \<Rightarrow> world" where
  "receive_frames user token fo w [] = w"
| "receive_frames user token fo w (fr # frs) =
     receive_frames user token fo (snd (channel_onmessage user token fo w fr)) frs"

section \<open>The sending side of the data channel\<close>

text \<open>
  \<^verbatim>\<open>dataChannelRef.current.send(x)\<close>: a \<^verbatim>\<open>TypeError\<close> when the reference is
  \<^verbatim>\<open>null\<close>; the channel's own contract makes \<^verbatim>\<open>send\<close> throw \<^verbatim>\<open>InvalidStateError\<close>
  unless its ready state is open.
\<close>

definition chan_send :: "frame \<Rightarrow> world \<Rightarrow> error option \<times> world" where
  "chan_send fr w =
     (case dataChannelRef w of
        None \<Rightarrow> (Some (TypeError ''Cannot read properties of null (reading send)''), w)
      | Some ch \<Rightarrow>
          (if readyState ch = Opened then (None, emit (ChanSend (ch_id ch) fr) w)
           else (Some (InvalidStateError ''RTCDataChannel.readyState is not open''), w)))"

text \<open>
  The \<^verbatim>\<open>else\<close> branch of \<^verbatim>\<open>reader.onload\<close>: the \<^verbatim>\<open>file-end\<close> frame, the success toast,
  the persistence call (not awaited, so it settles after the timer is set) and the timer
  that clears the active transfer 2000 ms later.
\<close>

definition finish_send ::
    "user \<Rightarrow> string \<Rightarrow> fetch_outcome \<Rightarrow> jsfile \<Rightarrow> user_id option \<Rightarrow> world \<Rightarrow> error option \<times> world" where
  "finish_send user token fo fl targetUserId w =
     (case chan_send (TextFrame FileEnd) w of
        (Some e, w1) \<Rightarrow> (Some e, w1)
      | (None, w1) \<Rightarrow>
          (None, logTransfer_settle fo
                   (emit (SetTimeout 2000 ClearActiveTransfer)
                      (logTransfer_start token
                         \<lparr>l_fileName = f_name fl, l_fileSize = int (f_size fl),
                          l_fileType = f_type fl, l_sender_id = u_id user,
                          l_receiver_id = targetUserId\<rparr>
                         (emit (ToastSuccess ''File sent successfully!'') w1)))))"

text \<open>
  \<^verbatim>\<open>readSlice(off)\<close> together with the \<^verbatim>\<open>reader.onload\<close> it triggers: the slice
  \<open>[off, off + CHUNK_SIZE)\<close> is read and sent, the offset advances by the length read, the
  progress is recomputed, and the next slice is requested while \<^verbatim>\<open>offset < file.size\<close>.
\<close>

function readSlice ::
    "user \<Rightarrow> string \<Rightarrow> fetch_outcome \<Rightarrow> jsfile \<Rightarrow> user_id option \<Rightarrow> nat \<Rightarrow> world
      \<Rightarrow> error option \<times> world" where
  "readSlice user token fo fl targetUserId off w =
     (let slice = file_slice fl off (off + CHUNK_SIZE);
          r = chan_send (BinaryFrame slice) w;
          offset = off + length slice
      in if fst r \<noteq> None then r
         else
           (let w2 = (snd r)\<lparr>activeTransfer :=
                        Some (set_progress (activeTransfer (snd r))
                                (js_min100 (js_percent offset (int (f_size fl)))))\<rparr>
            in if offset < f_size fl
               then readSlice user token fo fl targetUserId offset w2
               else finish_send user token fo fl targetUserId w2))"
  by pat_completeness auto
termination
  by (relation "measure (\<lambda>(user, token, fo, fl, targetUserId, off, w). f_size fl - off)")
     (auto simp: file_slice_def f_size_def CHUNK_SIZE_def)

text \<open>The part of \<^verbatim>\<open>startFileTransfer\<close> after the channel is known to be open.\<close>

definition send_file_frames ::
    "user \<Rightarrow> string \<Rightarrow> fetch_outcome \<Rightarrow> jsfile \<Rightarrow> user_id option \<Rightarrow> world \<Rightarrow> error option \<times> world" where
  "send_file_frames user token fo fl targetUserId w =
     (case chan_send (TextFrame (FileMeta \<lparr>m_fileName = f_name fl,
                                           m_fileSize = int (f_size fl),
                                           m_fileType = f_type fl,
                                           m_senderId = u_id user\<rparr>)) w of
        (Some e, w1) \<Rightarrow> (Some e, w1)
      | (None, w1) \<Rightarrow> readSlice user token fo fl targetUserId 0 w1)"

text \<open>
  \<^verbatim>\<open>startFileTransfer\<close>. While the channel is not open the function waits on a promise
  that the channel's open event resolves and a 20000 ms timer rejects; \<open>wo\<close> says which
  of the two settles it. On rejection the function shows a toast, logs and returns.
\<close>

definition startFileTransfer ::
    "user \<Rightarrow> string \<Rightarrow> wait_outcome \<Rightarrow> fetch_outcome \<Rightarrow> world \<Rightarrow> error option \<times> world" where
  "startFileTransfer user token wo fo w =
     (case activeTransfer w of
        None \<Rightarrow> (None, w)
      | Some t \<Rightarrow>
          (case t_file t of
             None \<Rightarrow> (None, w)
           | Some fl \<Rightarrow>
               (case dataChannelRef w of
                  None \<Rightarrow> (None, w)
                | Some ch \<Rightarrow>
                    (if readyState ch \<noteq> Opened then
                       (let w1 = emit (SetTimeout 20000 RejectOpenWait)
                                   (emit (AddOpenListener (ch_id ch)) w)
                        in case wo of
                             TimerFired \<Rightarrow>
                               (None, emit (ConsoleError ''Data channel open timeout'')
                                        (emit (ToastError ''Data channel failed to open'') w1))
                           | ChannelOpened \<Rightarrow>
                               send_file_frames user token fo fl (t_targetUserId t)
                                 (w1\<lparr>dataChannelRef := Some (ch\<lparr>readyState := Opened\<rparr>)\<rparr>))
                     else send_file_frames user token fo fl (t_targetUserId t) w))))"

text \<open>
  The slicing the transfer protocol prescribes, written independently of the loop: a
  sequence is cut into consecutive slices of \<open>n\<close> elements, the last one holding what
  remains; an empty sequence is one empty slice.
\<close>

function spec_slices :: "nat \<Rightarrow> 'a list \<Rightarrow> 'a list list" where
  "spec_slices n xs =
     (if n = 0 \<or> length xs \<le> n then [xs] else take n xs # spec_slices n (drop n xs))"
  by pat_completeness auto
termination
  by (relation "measure (\<lambda>(n, xs). length xs)") auto

text \<open>The frames written to the data channel with identifier \<open>c\<close>, in order.\<close>

fun sent_frames :: "nat \<Rightarrow> effect list \<Rightarrow> frame list" where
  "sent_frames c [] = []"
| "sent_frames c (ChanSend c' fr # es) =
     (if c' = c then fr # sent_frames c es else sent_frames c es)"
| "sent_frames c (e # es) = sent_frames c es"

text \<open>A world with its console output removed from the trace.\<close>

definition without_console :: "world \<Rightarrow> world" where
  "without_console w = w\<lparr>effects := filter (\<lambda>e. \<not> is_console e) (effects w)\<rparr>"

section \<open>Worlds used to exercise the handlers\<close>

definition demo_user :: user where
  "demo_user = \<lparr>u_id = 2, u_username = ''bob''\<rparr>"

definition demo_file :: jsfile where
  "demo_file = \<lparr>f_name = ''a.txt'', f_type = ''text/plain'', f_content = [1, 2, 3]\<rparr>"

text \<open>
  The sender after \<^verbatim>\<open>sendFile\<close> and an accepted response: a transfer is pending and the
  data channel created by \<^verbatim>\<open>createOffer\<close> is still connecting.
\<close>

definition pending_world :: world where
  "pending_world =
     (sendFile (Some 7) (Some demo_file) 2 initial_world)
       \<lparr>dataChannelRef :=
          Some \<lparr>ch_id = 1, ch_label = ''fileTransfer'', readyState = Connecting\<rparr>\<rparr>"

text \<open>A receiver that has been sent the metadata of a 3-byte file and two binary frames.\<close>

definition demo_meta :: meta where
  "demo_meta = \<lparr>m_fileName = ''a.txt'', m_fileSize = 3, m_fileType = ''text/plain'',
                 m_senderId = 1\<rparr>"

definition receiving_world :: world where
  "receiving_world =
     receive_frames demo_user ''tok'' FetchRejected initial_world
       [TextFrame (FileMeta demo_meta), BinaryFrame [1, 2], BinaryFrame [3]]"

text \<open>A sender about to transfer a file of two full slices over an open channel.\<close>

definition report_file :: jsfile where
  "report_file = \<lparr>f_name = ''report.pdf'', f_type = ''application/pdf'',
                   f_content = replicate 32768 0\<rparr>"

definition report_world :: world where
  "report_world =
     (sendFile (Some 7) (Some report_file) 2 initial_world)
       \<lparr>dataChannelRef :=
          Some \<lparr>ch_id = 1, ch_label = ''fileTransfer'', readyState = Opened\<rparr>\<rparr>"

text \<open>A sender about to transfer an empty file over an open channel.\<close>

definition empty_file :: jsfile where
  "empty_file = \<lparr>f_name = ''empty.txt'', f_type = ''text/plain'', f_content = []\<rparr>"

definition empty_send_world :: world where
  "empty_send_world =
     (sendFile (Some 7) (Some empty_file) 2 initial_world)
       \<lparr>dataChannelRef :=
          Some \<lparr>ch_id = 1, ch_label = ''fileTransfer'', readyState = Opened\<rparr>\<rparr>"

text \<open>The same receiver before the second binary frame.\<close>

definition half_world :: world where
  "half_world =
     receive_frames demo_user ''tok'' FetchRejected initial_world
       [TextFrame (FileMeta demo_meta), BinaryFrame [1, 2]]"

text \<open>A receiver that has been asked to accept a transfer.\<close>

definition incoming_world :: world where
  "incoming_world =
     snd (socket_onmessage (Some 7) demo_user ''d'' initial_world
            (TransferRequest 1 ''alice'' ''a.txt'' 3 ''text/plain''))"

text \<open>A responder whose connection has ingested an offer.\<close>

definition established_world :: world where
  "established_world = snd (handleOffer (Some 7) ''sdp-answer'' 1 ''sdp-offer'' initial_world)"

section \<open>Basic facts about the helpers\<close>

declare readSlice.simps [simp del] spec_slices.simps [simp del]

lemma logTransfer_effects:
  "logTransfer token fo r x =
     x\<lparr>effects := effects x @ FetchPost r token #
          (case fo of FetchResolved st \<Rightarrow> []
           | FetchRejected \<Rightarrow> [ConsoleError ''Failed to log transfer:''])\<rparr>"
  by (simp add: logTransfer_def logTransfer_start_def logTransfer_settle_def emit_def
      split: fetch_outcome.splits)

lemma handleOffer_connected:
  "handleOffer (Some sock) answer from offer w =
     (None, w\<lparr>peerConnectionRef :=
                 Some \<lparr>pc_id = next_id w, pc_target = from, remoteDescription = Some offer,
                       localDescription = Some answer, iceCandidates = []\<rparr>,
               next_id := Suc (next_id w),
               effects := effects w @ [NewPeerConnection (next_id w),
                                       WsSend sock (OutAnswer from answer)]\<rparr>)"
  by (simp add: handleOffer_def createPeerConnection_def update_pc_def ws_send_def emit_def Let_def)

lemma handleOffer_null_socket:
  "handleOffer None answer from offer w =
     (Some (TypeError ''Cannot read properties of null (reading send)''),
      w\<lparr>peerConnectionRef :=
           Some \<lparr>pc_id = next_id w, pc_target = from, remoteDescription = Some offer,
                 localDescription = Some answer, iceCandidates = []\<rparr>,
         next_id := Suc (next_id w),
         effects := effects w @ [NewPeerConnection (next_id w)]\<rparr>)"
  by (simp add: handleOffer_def createPeerConnection_def update_pc_def ws_send_def Let_def)

lemma open_wait_timeout:
  assumes "activeTransfer w = Some t" and "t_file t = Some fl"
    and "dataChannelRef w = Some ch" and "readyState ch \<noteq> Opened"
  shows "startFileTransfer user token TimerFired fo w =
     (None, w\<lparr>effects := effects w @
                 [AddOpenListener (ch_id ch), SetTimeout 20000 RejectOpenWait,
                  ToastError ''Data channel failed to open'',
                  ConsoleError ''Data channel open timeout'']\<rparr>)"
  using assms by (simp add: startFileTransfer_def emit_def Let_def)

lemma sent_frames_append:
  "sent_frames c (es @ es') = sent_frames c es @ sent_frames c es'"
  by (induction c es rule: sent_frames.induct) auto

lemma finish_send_open:
  assumes "dataChannelRef w = Some ch" and "readyState ch = Opened"
  shows "finish_send user token fo fl tgt w =
        (None, w\<lparr>effects := effects w @
                  [ChanSend (ch_id ch) (TextFrame FileEnd),
                   ToastSuccess ''File sent successfully!'',
                   FetchPost \<lparr>l_fileName = f_name fl, l_fileSize = int (f_size fl),
                              l_fileType = f_type fl, l_sender_id = u_id user,
                              l_receiver_id = tgt\<rparr> token,
                   SetTimeout 2000 ClearActiveTransfer] @
                  (case fo of FetchResolved st \<Rightarrow> []
                   | FetchRejected \<Rightarrow> [ConsoleError ''Failed to log transfer:''])\<rparr>)"
  using assms
  by (simp add: finish_send_def chan_send_def logTransfer_start_def logTransfer_settle_def
        emit_def split: fetch_outcome.splits)

lemma finish_send_frames:
  assumes "dataChannelRef w = Some ch" and "readyState ch = Opened"
  shows "fst (finish_send user token fo fl tgt w) = None \<and>
         sent_frames (ch_id ch) (effects (snd (finish_send user token fo fl tgt w)))
           = sent_frames (ch_id ch) (effects w) @ [TextFrame FileEnd]"
  by (simp add: finish_send_open [OF assms] sent_frames_append split: fetch_outcome.splits)

lemma chan_send_open:
  assumes "dataChannelRef w = Some ch" and "readyState ch = Opened"
  shows "chan_send fr w = (None, w\<lparr>effects := effects w @ [ChanSend (ch_id ch) fr]\<rparr>)"
  using assms by (simp add: chan_send_def emit_def)

lemma readSlice_frames:
  assumes "dataChannelRef w = Some ch" and "readyState ch = Opened"
  shows "fst (readSlice user token fo fl tgt off w) = None \<and>
         sent_frames (ch_id ch) (effects (snd (readSlice user token fo fl tgt off w)))
           = sent_frames (ch_id ch) (effects w) @
             map BinaryFrame (spec_slices CHUNK_SIZE (drop off (f_content fl))) @
             [TextFrame FileEnd]"
  using assms
proof (induction user token fo fl tgt off w rule: readSlice.induct)
  case (1 user token fo fl tgt off w)
  define slice where "slice = file_slice fl off (off + CHUNK_SIZE)"
  define r where "r = chan_send (BinaryFrame slice) w"
  define offset where "offset = off + length slice"
  define w2 where "w2 = (snd r)\<lparr>activeTransfer :=
                        Some (set_progress (activeTransfer (snd r))
                                (js_min100 (js_percent offset (int (f_size fl)))))\<rparr>"
  have r: "r = (None, w\<lparr>effects := effects w @ [ChanSend (ch_id ch) (BinaryFrame slice)]\<rparr>)"
    unfolding r_def using "1.prems" by (rule chan_send_open)
  have w2_ch: "dataChannelRef w2 = Some ch"
    by (simp add: w2_def r "1.prems")
  have w2_eff: "effects w2 = effects w @ [ChanSend (ch_id ch) (BinaryFrame slice)]"
    by (simp add: w2_def r)
  have slice: "slice = take CHUNK_SIZE (drop off (f_content fl))"
    by (simp add: slice_def file_slice_def)
  have unfold: "readSlice user token fo fl tgt off w =
      (if offset < f_size fl then readSlice user token fo fl tgt offset w2
       else finish_send user token fo fl tgt w2)"
    by (subst readSlice.simps) (simp add: Let_def slice_def r_def offset_def w2_def r [unfolded r_def slice_def])
  show ?case
  proof (cases "offset < f_size fl")
    case True
    have len: "CHUNK_SIZE < length (drop off (f_content fl))"
      using True by (auto simp: offset_def slice f_size_def min_def split: if_splits)
    have lslice: "length slice = CHUNK_SIZE"
      using len by (simp add: slice)
    have sp: "spec_slices CHUNK_SIZE (drop off (f_content fl))
        = slice # spec_slices CHUNK_SIZE (drop offset (f_content fl))"
      using len by (subst spec_slices.simps) (simp add: slice offset_def CHUNK_SIZE_def add.commute)
    have "\<not> fst r \<noteq> None" by (simp add: r)
    from "1.IH" [OF slice_def r_def offset_def this w2_def True w2_ch "1.prems"(2)]
    show ?thesis
      by (simp add: unfold True w2_eff sp sent_frames_append)
  next
    case False
    have len: "length (drop off (f_content fl)) \<le> CHUNK_SIZE"
      using False by (auto simp: offset_def slice f_size_def min_def split: if_splits)
    have sp: "spec_slices CHUNK_SIZE (drop off (f_content fl)) = [slice]"
      using len by (subst spec_slices.simps) (simp add: slice)
    show ?thesis
      using finish_send_frames [OF w2_ch "1.prems"(2), of user token fo fl tgt]
      by (simp add: unfold False w2_eff sp sent_frames_append)
  qed
qed


lemma concat_spec_slices: "concat (spec_slices n xs) = xs"
proof (induction n xs rule: spec_slices.induct)
  case (1 n xs)
  show ?case
  proof (cases "n = 0 \<or> length xs \<le> n")
    case True
    then show ?thesis by (subst spec_slices.simps) simp
  next
    case False
    with 1 show ?thesis by (subst spec_slices.simps) simp
  qed
qed

lemma spec_slices_nonempty: "spec_slices n xs \<noteq> []"
  by (subst spec_slices.simps) simp

lemma spec_slices_nth:
  "0 < n \<Longrightarrow> i < length (spec_slices n xs) \<Longrightarrow>
     spec_slices n xs ! i = take n (drop (i * n) xs)"
proof (induction n xs arbitrary: i rule: spec_slices.induct)
  case (1 n xs)
  show ?case
  proof (cases "n = 0 \<or> length xs \<le> n")
    case True
    with "1.prems" show ?thesis by (subst spec_slices.simps) (simp add: spec_slices.simps [of n xs])
  next
    case False
    have eq: "spec_slices n xs = take n xs # spec_slices n (drop n xs)"
      using False by (subst spec_slices.simps) simp
    show ?thesis
    proof (cases i)
      case 0
      then show ?thesis by (simp add: eq)
    next
      case (Suc j)
      with "1.prems" have "j < length (spec_slices n (drop n xs))" by (simp add: eq)
      from "1.IH" [OF False "1.prems"(1) this] show ?thesis
        by (simp add: eq Suc add.commute)
    qed
  qed
qed

lemma spec_slices_full:
  "0 < n \<Longrightarrow> Suc i < length (spec_slices n xs) \<Longrightarrow> length (spec_slices n xs ! i) = n"
proof (induction n xs arbitrary: i rule: spec_slices.induct)
  case (1 n xs)
  show ?case
  proof (cases "n = 0 \<or> length xs \<le> n")
    case True
    with "1.prems" show ?thesis by (simp add: spec_slices.simps [of n xs])
  next
    case False
    have eq: "spec_slices n xs = take n xs # spec_slices n (drop n xs)"
      using False by (subst spec_slices.simps) simp
    show ?thesis
    proof (cases i)
      case 0
      with False show ?thesis by (simp add: eq)
    next
      case (Suc j)
      with "1.prems" have "Suc j < length (spec_slices n (drop n xs))" by (simp add: eq)
      from "1.IH" [OF False "1.prems"(1) this] show ?thesis
        by (simp add: eq Suc)
    qed
  qed
qed

lemma spec_slices_last:
  "0 < n \<Longrightarrow> length (last (spec_slices n xs)) \<le> n"
proof (induction n xs rule: spec_slices.induct)
  case (1 n xs)
  show ?case
  proof (cases "n = 0 \<or> length xs \<le> n")
    case True
    with "1.prems" show ?thesis by (simp add: spec_slices.simps [of n xs])
  next
    case False
    have eq: "spec_slices n xs = take n xs # spec_slices n (drop n xs)"
      using False by (subst spec_slices.simps) simp
    from "1.IH" [OF False "1.prems"] show ?thesis
      by (simp add: eq spec_slices_nonempty)
  qed
qed

lemma send_file_frames_open:
  assumes "dataChannelRef w = Some ch" and "readyState ch = Opened"
  shows "fst (send_file_frames user token fo fl tgt w) = None \<and>
         sent_frames (ch_id ch) (effects (snd (send_file_frames user token fo fl tgt w)))
           = sent_frames (ch_id ch) (effects w) @
             TextFrame (FileMeta \<lparr>m_fileName = f_name fl, m_fileSize = int (f_size fl),
                                  m_fileType = f_type fl, m_senderId = u_id user\<rparr>) #
             map BinaryFrame (spec_slices CHUNK_SIZE (f_content fl)) @ [TextFrame FileEnd]"
proof -
  let ?m = "TextFrame (FileMeta \<lparr>m_fileName = f_name fl, m_fileSize = int (f_size fl),
                                  m_fileType = f_type fl, m_senderId = u_id user\<rparr>)"
  let ?w1 = "w\<lparr>effects := effects w @ [ChanSend (ch_id ch) ?m]\<rparr>"
  have s: "chan_send ?m w = (None, ?w1)"
    using assms by (rule chan_send_open)
  have c: "dataChannelRef ?w1 = Some ch" using assms by simp
  show ?thesis
    using readSlice_frames [OF c assms(2), of user token fo fl tgt 0]
    by (simp add: send_file_frames_def s sent_frames_append)
qed

lemma two_full_slices:
  "spec_slices CHUNK_SIZE (replicate 32768 (0::8 word))
     = [replicate 16384 0, replicate 16384 0]"
  by (simp add: spec_slices.simps [of _ "replicate (n::nat) x" for n x] CHUNK_SIZE_def)

lemma receive_frames_append:
  "receive_frames user token fo w (xs @ ys)
     = receive_frames user token fo (receive_frames user token fo w xs) ys"
  by (induction xs arbitrary: w) auto

lemma set_progress_twice:
  "set_progress (Some (set_progress a p)) q = set_progress a q"
  by (simp add: set_progress_def split: option.splits)

lemma binary_frame_step:
  assumes "transferMetaRef w = Some m"
  shows "channel_onmessage user token fo w (BinaryFrame d) =
     (None, w\<lparr>receivedBufferRef := receivedBufferRef w @ [d],
              receivedSizeRef := receivedSizeRef w + length d,
              activeTransfer :=
                Some (set_progress (activeTransfer w)
                        (js_min100 (js_percent (receivedSizeRef w + length d) (m_fileSize m))))\<rparr>)"
  using assms by (simp add: channel_onmessage_def Let_def)

lemma receive_binary_frames:
  assumes "transferMetaRef w = Some m"
  shows "receive_frames user token fo w (map BinaryFrame ds) =
     w\<lparr>receivedBufferRef := receivedBufferRef w @ ds,
       receivedSizeRef := receivedSizeRef w + length (concat ds),
       activeTransfer :=
         (if ds = [] then activeTransfer w
          else Some (set_progress (activeTransfer w)
                 (js_min100 (js_percent (receivedSizeRef w + length (concat ds))
                                        (m_fileSize m)))))\<rparr>"
  using assms
proof (induction ds arbitrary: w)
  case Nil
  then show ?case by simp
next
  case (Cons d ds)
  let ?w1 = "w\<lparr>receivedBufferRef := receivedBufferRef w @ [d],
              receivedSizeRef := receivedSizeRef w + length d,
              activeTransfer :=
                Some (set_progress (activeTransfer w)
                        (js_min100 (js_percent (receivedSizeRef w + length d) (m_fileSize m))))\<rparr>"
  have m1: "transferMetaRef ?w1 = Some m" using Cons.prems by simp
  show ?case
    by (simp add: binary_frame_step [OF Cons.prems] Cons.IH [OF m1] set_progress_twice
        add.assoc)
qed

lemma js_progress_positive:
  "0 < s \<Longrightarrow> js_min100 (js_percent n s) = Num (min (rat_of_nat n / rat_of_int s * 100) 100)"
  by (simp add: js_percent_def)

lemma progress_bounds_positive_size:
  assumes "0 < s" and "a \<le> b"
  shows "js_le (js_min100 (js_percent a s)) (js_min100 (js_percent b s)) \<and>
         js_le (js_min100 (js_percent b s)) (Num 100) \<and>
         js_le (Num 0) (js_min100 (js_percent a s))"
proof -
  have "rat_of_nat a / rat_of_int s \<le> rat_of_nat b / rat_of_int s"
    using assms by (simp add: divide_right_mono)
  then have "rat_of_nat a / rat_of_int s * 100 \<le> rat_of_nat b / rat_of_int s * 100"
    by (rule mult_right_mono) simp
  moreover have "0 \<le> rat_of_nat a / rat_of_int s * 100"
    using assms by simp
  ultimately show ?thesis
    using assms by (simp add: js_progress_positive min_def)
qed

lemma receive_empty_progress_nan:
  "map_option t_progress (activeTransfer (receive_frames demo_user ''tok'' (FetchResolved 200)
      initial_world
      [TextFrame (FileMeta \<lparr>m_fileName = ''empty.txt'', m_fileSize = 0,
                             m_fileType = ''text/plain'', m_senderId = 2\<rparr>),
       BinaryFrame []])) = Some NaN"
  by (simp add: channel_onmessage_def set_progress_def js_percent_def initial_world_def Let_def)

section \<open>Chunked transfer: the sender\<close>

text \<open>
  C1. Whenever \<^verbatim>\<open>startFileTransfer\<close> runs with an active transfer that holds a file and
  with a data channel that is open, or that opens before the timer fires, it completes
  without raising, and what it writes to that channel is: one \<^verbatim>\<open>file-meta\<close> frame
  declaring the file's size, then one binary frame per slice of the file, then one
  \<^verbatim>\<open>file-end\<close> frame. The slices are the consecutive 16384-byte pieces of the content
  starting at offset 0: slice \<open>i\<close> holds the bytes from offset \<open>i * 16384\<close>, every
  slice but the last has 16384 bytes, none has more, and their concatenation is the
  content, so that their total length is the declared size. (An empty file is sent as one
  empty binary frame.)
\<close>

theorem startFileTransfer_frames:
  assumes "activeTransfer w = Some t" and "t_file t = Some fl"
    and "dataChannelRef w = Some ch"
    and "readyState ch = Opened \<or> wo = ChannelOpened"
  shows "fst (startFileTransfer user token wo fo w) = None \<and>
         sent_frames (ch_id ch) (effects (snd (startFileTransfer user token wo fo w)))
           = sent_frames (ch_id ch) (effects w) @
             TextFrame (FileMeta \<lparr>m_fileName = f_name fl, m_fileSize = int (f_size fl),
                                  m_fileType = f_type fl, m_senderId = u_id user\<rparr>) #
             map BinaryFrame (spec_slices CHUNK_SIZE (f_content fl)) @ [TextFrame FileEnd] \<and>
         concat (spec_slices CHUNK_SIZE (f_content fl)) = f_content fl \<and>
         int (length (concat (spec_slices CHUNK_SIZE (f_content fl)))) = int (f_size fl) \<and>
         (\<forall>i < length (spec_slices CHUNK_SIZE (f_content fl)).
            spec_slices CHUNK_SIZE (f_content fl) ! i
              = take CHUNK_SIZE (drop (i * CHUNK_SIZE) (f_content fl)) \<and>
            (Suc i < length (spec_slices CHUNK_SIZE (f_content fl)) \<longrightarrow>
               length (spec_slices CHUNK_SIZE (f_content fl) ! i) = 16384) \<and>
            length (spec_slices CHUNK_SIZE (f_content fl) ! i) \<le> 16384)"
proof -
  have pos: "0 < CHUNK_SIZE" by (simp add: CHUNK_SIZE_def)
  have frames: "fst (startFileTransfer user token wo fo w) = None \<and>
         sent_frames (ch_id ch) (effects (snd (startFileTransfer user token wo fo w)))
           = sent_frames (ch_id ch) (effects w) @
             TextFrame (FileMeta \<lparr>m_fileName = f_name fl, m_fileSize = int (f_size fl),
                                  m_fileType = f_type fl, m_senderId = u_id user\<rparr>) #
             map BinaryFrame (spec_slices CHUNK_SIZE (f_content fl)) @ [TextFrame FileEnd]"
  proof (cases "readyState ch = Opened")
    case True
    then show ?thesis
      using assms send_file_frames_open [OF assms(3) True, of user token fo fl "t_targetUserId t"]
      by (simp add: startFileTransfer_def)
  next
    case False
    with assms(4) have wo: "wo = ChannelOpened" by simp
    let ?w1 = "(emit (SetTimeout 20000 RejectOpenWait) (emit (AddOpenListener (ch_id ch)) w))
                 \<lparr>dataChannelRef := Some (ch\<lparr>readyState := Opened\<rparr>)\<rparr>"
    have c: "dataChannelRef ?w1 = Some (ch\<lparr>readyState := Opened\<rparr>)" by simp
    have o: "readyState (ch\<lparr>readyState := Opened\<rparr>) = Opened" by simp
    have e: "sent_frames (ch_id ch) (effects (emit (SetTimeout 20000 RejectOpenWait)
                 (emit (AddOpenListener (ch_id ch)) w))) = sent_frames (ch_id ch) (effects w)"
      by (simp add: emit_def sent_frames_append)
    show ?thesis
      using assms False wo send_file_frames_open [OF c o, of user token fo fl "t_targetUserId t"]
      by (simp add: startFileTransfer_def Let_def e)
  qed
  have nth: "\<And>i. i < length (spec_slices CHUNK_SIZE (f_content fl)) \<Longrightarrow>
      spec_slices CHUNK_SIZE (f_content fl) ! i
        = take CHUNK_SIZE (drop (i * CHUNK_SIZE) (f_content fl))"
    by (rule spec_slices_nth [OF pos])
  have full: "\<And>i. Suc i < length (spec_slices CHUNK_SIZE (f_content fl)) \<Longrightarrow>
      length (spec_slices CHUNK_SIZE (f_content fl) ! i) = 16384"
    using spec_slices_full [OF pos] by (simp add: CHUNK_SIZE_def)
  have len: "\<And>i. i < length (spec_slices CHUNK_SIZE (f_content fl)) \<Longrightarrow>
      length (spec_slices CHUNK_SIZE (f_content fl) ! i) \<le> 16384"
  proof -
    fix i assume "i < length (spec_slices CHUNK_SIZE (f_content fl))"
    then have "length (spec_slices CHUNK_SIZE (f_content fl) ! i)
        = length (take CHUNK_SIZE (drop (i * CHUNK_SIZE) (f_content fl)))"
      by (simp only: nth)
    also have "\<dots> \<le> CHUNK_SIZE" by simp
    finally show "length (spec_slices CHUNK_SIZE (f_content fl) ! i) \<le> 16384"
      by (simp add: CHUNK_SIZE_def)
  qed
  have props: "\<forall>i < length (spec_slices CHUNK_SIZE (f_content fl)).
            spec_slices CHUNK_SIZE (f_content fl) ! i
              = take CHUNK_SIZE (drop (i * CHUNK_SIZE) (f_content fl)) \<and>
            (Suc i < length (spec_slices CHUNK_SIZE (f_content fl)) \<longrightarrow>
               length (spec_slices CHUNK_SIZE (f_content fl) ! i) = 16384) \<and>
            length (spec_slices CHUNK_SIZE (f_content fl) ! i) \<le> 16384"
    using nth full len by blast
  have cc: "concat (spec_slices CHUNK_SIZE (f_content fl)) = f_content fl"
    by (rule concat_spec_slices)
  have sz: "int (length (concat (spec_slices CHUNK_SIZE (f_content fl)))) = int (f_size fl)"
    by (simp only: cc f_size_def)
  from frames cc sz props show ?thesis by blast
qed

theorem startFileTransfer_frames_witness:
  "sent_frames 1 (effects (snd (startFileTransfer demo_user ''tok'' ChannelOpened FetchRejected
      pending_world)))
     = [TextFrame (FileMeta \<lparr>m_fileName = ''a.txt'', m_fileSize = 3,
                             m_fileType = ''text/plain'', m_senderId = 2\<rparr>),
        BinaryFrame [1, 2, 3], TextFrame FileEnd] \<and>
   sent_frames 1 (effects (snd (startFileTransfer \<lparr>u_id = 1, u_username = ''alice''\<rparr> ''tok''
      TimerFired (FetchResolved 200) report_world)))
     = [TextFrame (FileMeta \<lparr>m_fileName = ''report.pdf'', m_fileSize = 32768,
                             m_fileType = ''application/pdf'', m_senderId = 1\<rparr>),
        BinaryFrame (replicate 16384 0), BinaryFrame (replicate 16384 0), TextFrame FileEnd]"
proof -
  have a: "activeTransfer pending_world =
      Some \<lparr>t_fileName = Some ''a.txt'', t_fileSize = Some 3, t_progress = Num 0,
            t_type = Some Sending, t_file = Some demo_file, t_targetUserId = Some 2\<rparr>"
    by (simp add: pending_world_def sendFile_def emit_def demo_file_def f_size_def)
  have c: "dataChannelRef pending_world =
      Some \<lparr>ch_id = 1, ch_label = ''fileTransfer'', readyState = Connecting\<rparr>"
    by (simp add: pending_world_def)
  have e: "effects pending_world = [WsSend 7 (OutTransferRequest 2 ''a.txt'' 3 ''text/plain'')]"
    by (simp add: pending_world_def sendFile_def emit_def demo_file_def f_size_def
        initial_world_def)
  have s: "spec_slices CHUNK_SIZE [1, 2, 3 :: 8 word] = [[1, 2, 3]]"
    by (subst spec_slices.simps) (simp add: CHUNK_SIZE_def)
  have small: "sent_frames 1 (effects (snd (startFileTransfer demo_user ''tok'' ChannelOpened
      FetchRejected pending_world)))
     = [TextFrame (FileMeta \<lparr>m_fileName = ''a.txt'', m_fileSize = 3,
                             m_fileType = ''text/plain'', m_senderId = 2\<rparr>),
        BinaryFrame [1, 2, 3], TextFrame FileEnd]"
    using startFileTransfer_frames [OF a _ c, of demo_file ChannelOpened demo_user "''tok''"
        FetchRejected]
    by (simp add: e s demo_file_def demo_user_def f_size_def)
  have a': "activeTransfer report_world =
      Some \<lparr>t_fileName = Some ''report.pdf'', t_fileSize = Some 32768, t_progress = Num 0,
            t_type = Some Sending, t_file = Some report_file, t_targetUserId = Some 2\<rparr>"
    by (simp add: report_world_def sendFile_def emit_def report_file_def f_size_def)
  have c': "dataChannelRef report_world =
      Some \<lparr>ch_id = 1, ch_label = ''fileTransfer'', readyState = Opened\<rparr>"
    by (simp add: report_world_def)
  have e': "sent_frames 1 (effects report_world) = []"
    by (simp add: report_world_def sendFile_def emit_def initial_world_def)
  have f: "f_content report_file = replicate 32768 0" "f_name report_file = ''report.pdf''"
    "f_type report_file = ''application/pdf''" "f_size report_file = 32768"
    by (simp_all add: report_file_def f_size_def)
  have large: "sent_frames 1 (effects (snd (startFileTransfer \<lparr>u_id = 1, u_username = ''alice''\<rparr>
      ''tok'' TimerFired (FetchResolved 200) report_world)))
     = [TextFrame (FileMeta \<lparr>m_fileName = ''report.pdf'', m_fileSize = 32768,
                             m_fileType = ''application/pdf'', m_senderId = 1\<rparr>),
        BinaryFrame (replicate 16384 0), BinaryFrame (replicate 16384 0), TextFrame FileEnd]"
    using e' startFileTransfer_frames [OF a' _ c', of report_file TimerFired
        "\<lparr>u_id = 1, u_username = ''alice''\<rparr>" "''tok''" "FetchResolved 200"]
    by (simp add: f two_full_slices)
  from small large show ?thesis by (rule conjI)
qed

section \<open>Chunked transfer: the receiver\<close>

text \<open>
  C2. On \<^verbatim>\<open>file-meta\<close> the receiver stores the metadata, empties the buffer, zeroes the
  byte counter and records a receiving transfer with progress 0. On a binary frame, once
  metadata is stored, it appends the frame to the buffer, adds the frame's length to the
  counter and sets the progress to \<^verbatim>\<open>Math.min((received / fileSize) * 100, 100)\<close>, which
  for a positive declared size is the minimum of 100 and 100 times received over declared.
  After \<^verbatim>\<open>file-meta\<close> and any binary frames \<open>ds\<close>, the buffer is \<open>ds\<close> in arrival
  order and the counter is its total length; \<^verbatim>\<open>file-end\<close> then hands the concatenation
  of \<open>ds\<close> to the download link, whatever size was declared, clears the active transfer and
  makes exactly one persistence call with the record of the transfer.
\<close>

theorem receive_transfer:
  "channel_onmessage user token fo w (TextFrame (FileMeta m)) =
     (None, w\<lparr>transferMetaRef := Some m, receivedBufferRef := [], receivedSizeRef := 0,
              activeTransfer :=
                Some \<lparr>t_fileName = Some (m_fileName m), t_fileSize = Some (m_fileSize m),
                      t_progress = Num 0, t_type = Some Receiving, t_file = None,
                      t_targetUserId = None\<rparr>\<rparr>) \<and>
   (\<forall>m'. transferMetaRef w = Some m' \<longrightarrow>
      channel_onmessage user token fo w (BinaryFrame d) =
        (None, w\<lparr>receivedBufferRef := receivedBufferRef w @ [d],
                 receivedSizeRef := receivedSizeRef w + length d,
                 activeTransfer :=
                   Some (set_progress (activeTransfer w)
                     (js_min100 (js_percent (receivedSizeRef w + length d) (m_fileSize m'))))\<rparr>) \<and>
      (0 < m_fileSize m' \<longrightarrow>
         js_min100 (js_percent (receivedSizeRef w + length d) (m_fileSize m'))
           = Num (min (rat_of_nat (receivedSizeRef w + length d) / rat_of_int (m_fileSize m') * 100)
                      100))) \<and>
   (let w1 = receive_frames user token fo w (TextFrame (FileMeta m) # map BinaryFrame ds);
        w2 = receive_frames user token fo w
               (TextFrame (FileMeta m) # map BinaryFrame ds @ [TextFrame FileEnd])
    in receivedBufferRef w1 = ds \<and>
       receivedSizeRef w1 = length (concat ds) \<and>
       map_option t_progress (activeTransfer w1)
         = Some (if ds = [] then Num 0
                 else js_min100 (js_percent (length (concat ds)) (m_fileSize m))) \<and>
       activeTransfer w2 = None \<and>
       effects w2 = effects w @
         [Download (m_fileName m) (m_fileType m) (concat ds),
          ToastSuccess ''File received successfully!'',
          FetchPost \<lparr>l_fileName = m_fileName m, l_fileSize = m_fileSize m,
                     l_fileType = m_fileType m, l_sender_id = m_senderId m,
                     l_receiver_id = Some (u_id user)\<rparr> token] @
         (case fo of FetchResolved st \<Rightarrow> []
          | FetchRejected \<Rightarrow> [ConsoleError ''Failed to log transfer:'']))"
proof (intro conjI allI impI)
  show meta: "channel_onmessage user token fo w (TextFrame (FileMeta m)) =
     (None, w\<lparr>transferMetaRef := Some m, receivedBufferRef := [], receivedSizeRef := 0,
              activeTransfer :=
                Some \<lparr>t_fileName = Some (m_fileName m), t_fileSize = Some (m_fileSize m),
                      t_progress = Num 0, t_type = Some Receiving, t_file = None,
                      t_targetUserId = None\<rparr>\<rparr>)"
    by (simp add: channel_onmessage_def)
  let ?w0 = "w\<lparr>transferMetaRef := Some m, receivedBufferRef := [], receivedSizeRef := 0,
              activeTransfer :=
                Some \<lparr>t_fileName = Some (m_fileName m), t_fileSize = Some (m_fileSize m),
                      t_progress = Num 0, t_type = Some Receiving, t_file = None,
                      t_targetUserId = None\<rparr>\<rparr>"
  have m0: "transferMetaRef ?w0 = Some m" by simp
  have w1: "receive_frames user token fo w (TextFrame (FileMeta m) # map BinaryFrame ds)
      = ?w0\<lparr>receivedBufferRef := ds, receivedSizeRef := length (concat ds),
            activeTransfer :=
              (if ds = [] then activeTransfer ?w0
               else Some (set_progress (activeTransfer ?w0)
                      (js_min100 (js_percent (length (concat ds)) (m_fileSize m)))))\<rparr>"
    by (simp add: meta receive_binary_frames [OF m0])
  have w2: "receive_frames user token fo w
               (TextFrame (FileMeta m) # map BinaryFrame ds @ [TextFrame FileEnd])
      = snd (channel_onmessage user token fo
               (receive_frames user token fo w (TextFrame (FileMeta m) # map BinaryFrame ds))
               (TextFrame FileEnd))"
    using receive_frames_append [of user token fo w "TextFrame (FileMeta m) # map BinaryFrame ds"
        "[TextFrame FileEnd]"]
    by simp
  show "let w1 = receive_frames user token fo w (TextFrame (FileMeta m) # map BinaryFrame ds);
        w2 = receive_frames user token fo w
               (TextFrame (FileMeta m) # map BinaryFrame ds @ [TextFrame FileEnd])
    in receivedBufferRef w1 = ds \<and>
       receivedSizeRef w1 = length (concat ds) \<and>
       map_option t_progress (activeTransfer w1)
         = Some (if ds = [] then Num 0
                 else js_min100 (js_percent (length (concat ds)) (m_fileSize m))) \<and>
       activeTransfer w2 = None \<and>
       effects w2 = effects w @
         [Download (m_fileName m) (m_fileType m) (concat ds),
          ToastSuccess ''File received successfully!'',
          FetchPost \<lparr>l_fileName = m_fileName m, l_fileSize = m_fileSize m,
                     l_fileType = m_fileType m, l_sender_id = m_senderId m,
                     l_receiver_id = Some (u_id user)\<rparr> token] @
         (case fo of FetchResolved st \<Rightarrow> []
          | FetchRejected \<Rightarrow> [ConsoleError ''Failed to log transfer:''])"
    unfolding Let_def w2 w1
    by (simp add: channel_onmessage_def logTransfer_effects file_end_complete_def emit_def
        set_progress_def split: fetch_outcome.splits)
next
  fix m' assume "transferMetaRef w = Some m'"
  then show "channel_onmessage user token fo w (BinaryFrame d) =
        (None, w\<lparr>receivedBufferRef := receivedBufferRef w @ [d],
                 receivedSizeRef := receivedSizeRef w + length d,
                 activeTransfer :=
                   Some (set_progress (activeTransfer w)
                     (js_min100 (js_percent (receivedSizeRef w + length d) (m_fileSize m'))))\<rparr>)"
    by (rule binary_frame_step)
next
  fix m' assume "0 < m_fileSize m'"
  then show "js_min100 (js_percent (receivedSizeRef w + length d) (m_fileSize m'))
           = Num (min (rat_of_nat (receivedSizeRef w + length d) / rat_of_int (m_fileSize m') * 100)
                      100)"
    by (rule js_progress_positive)
qed

theorem receive_transfer_witness:
  "(let w1 = receive_frames demo_user ''tok'' FetchRejected initial_world
               (TextFrame (FileMeta demo_meta) # map BinaryFrame [[1, 2], [3]]);
        w2 = receive_frames demo_user ''tok'' FetchRejected initial_world
               (TextFrame (FileMeta demo_meta) # map BinaryFrame [[1, 2], [3]] @
                [TextFrame FileEnd])
    in receivedBufferRef w1 = [[1, 2], [3]] \<and> receivedSizeRef w1 = 3 \<and>
       map_option t_progress (activeTransfer w1) = Some (Num 100) \<and>
       activeTransfer w2 = None \<and>
       effects w2 =
         [Download ''a.txt'' ''text/plain'' [1, 2, 3],
          ToastSuccess ''File received successfully!'',
          FetchPost \<lparr>l_fileName = ''a.txt'', l_fileSize = 3, l_fileType = ''text/plain'',
                     l_sender_id = 1, l_receiver_id = Some 2\<rparr> ''tok'',
          ConsoleError ''Failed to log transfer:'']) \<and>
   transferMetaRef half_world = Some demo_meta \<and> 0 < m_fileSize demo_meta \<and>
   fst (channel_onmessage demo_user ''tok'' FetchRejected half_world (BinaryFrame [3])) = None \<and>
   receivedBufferRef (snd (channel_onmessage demo_user ''tok'' FetchRejected half_world
      (BinaryFrame [3]))) = [[1, 2], [3]] \<and>
   receivedSizeRef (snd (channel_onmessage demo_user ''tok'' FetchRejected half_world
      (BinaryFrame [3]))) = 3 \<and>
   js_min100 (js_percent (receivedSizeRef half_world + length [3 :: 8 word]) (m_fileSize demo_meta))
     = Num 100"
proof -
  have m: "transferMetaRef half_world = Some demo_meta"
    by (simp add: half_world_def channel_onmessage_def Let_def)
  have p: "0 < m_fileSize demo_meta"
    by (simp add: demo_meta_def)
  have b: "receivedBufferRef half_world = [[1, 2]]" "receivedSizeRef half_world = 2"
    by (simp_all add: half_world_def channel_onmessage_def Let_def initial_world_def)
  have whole: "(let w1 = receive_frames demo_user ''tok'' FetchRejected initial_world
               (TextFrame (FileMeta demo_meta) # map BinaryFrame [[1, 2], [3]]);
        w2 = receive_frames demo_user ''tok'' FetchRejected initial_world
               (TextFrame (FileMeta demo_meta) # map BinaryFrame [[1, 2], [3]] @
                [TextFrame FileEnd])
    in receivedBufferRef w1 = [[1, 2], [3]] \<and> receivedSizeRef w1 = 3 \<and>
       map_option t_progress (activeTransfer w1) = Some (Num 100) \<and>
       activeTransfer w2 = None \<and>
       effects w2 =
         [Download ''a.txt'' ''text/plain'' [1, 2, 3],
          ToastSuccess ''File received successfully!'',
          FetchPost \<lparr>l_fileName = ''a.txt'', l_fileSize = 3, l_fileType = ''text/plain'',
                     l_sender_id = 1, l_receiver_id = Some 2\<rparr> ''tok'',
          ConsoleError ''Failed to log transfer:''])"
    using receive_transfer [of demo_user "''tok''" FetchRejected initial_world demo_meta "[]"
      "[[1, 2], [3]]"]
    by (simp add: Let_def demo_meta_def demo_user_def initial_world_def js_percent_def
      channel_onmessage_def set_progress_def logTransfer_effects file_end_complete_def emit_def)
  have step: "fst (channel_onmessage demo_user ''tok'' FetchRejected half_world (BinaryFrame [3])) = None \<and>
   receivedBufferRef (snd (channel_onmessage demo_user ''tok'' FetchRejected half_world
      (BinaryFrame [3]))) = [[1, 2], [3]] \<and>
   receivedSizeRef (snd (channel_onmessage demo_user ''tok'' FetchRejected half_world
      (BinaryFrame [3]))) = 3 \<and>
   js_min100 (js_percent (receivedSizeRef half_world + length [3 :: 8 word]) (m_fileSize demo_meta))
     = Num 100"
    using m p b receive_transfer [of demo_user "''tok''" FetchRejected half_world demo_meta "[3]" "[]"]
    by (simp add: demo_meta_def)
  from whole m p step show ?thesis by blast
qed

section \<open>Progress\<close>

text \<open>
  C3. The sender transfers an empty file over an open channel. The transfer is recorded with
  progress 0; after the only slice has been sent the progress is \<^verbatim>\<open>Math.min(0 / 0 * 100, 100)\<close>,
  which is \<^verbatim>\<open>NaN\<close>: it is neither at least the previous progress nor at most 100.
\<close>

theorem empty_file_progress_nan:
  "map_option t_progress (activeTransfer empty_send_world) = Some (Num 0) \<and>
   fst (startFileTransfer demo_user ''tok'' ChannelOpened (FetchResolved 200) empty_send_world)
     = None \<and>
   map_option t_progress (activeTransfer (snd (startFileTransfer demo_user ''tok'' ChannelOpened
      (FetchResolved 200) empty_send_world))) = Some NaN \<and>
   \<not> js_le (Num 0) NaN \<and> \<not> js_le NaN (Num 100) \<and>
   sent_frames 1 (effects (snd (startFileTransfer demo_user ''tok'' ChannelOpened
      (FetchResolved 200) empty_send_world)))
     = [TextFrame (FileMeta \<lparr>m_fileName = ''empty.txt'', m_fileSize = 0,
                             m_fileType = ''text/plain'', m_senderId = 2\<rparr>),
        BinaryFrame [], TextFrame FileEnd]"
  by (simp add: empty_send_world_def empty_file_def sendFile_def startFileTransfer_def
      send_file_frames_def readSlice.simps finish_send_def chan_send_def emit_def
      logTransfer_start_def logTransfer_settle_def set_progress_def js_percent_def
      file_slice_def f_size_def initial_world_def demo_user_def Let_def)

section \<open>Peer list\<close>

text \<open>
  C9. For every \<^verbatim>\<open>room_users\<close> message delivered to a member, the handler completes
  and the peer list it stores is the received list with the entries carrying the member's
  own id filtered out, in the received order: as a set it is the received members minus
  the member, and the member's id does not occur in it.
\<close>

theorem room_users_excludes_self:
  "fst (socket_onmessage ws user desc w (RoomUsers users)) = None \<and>
   onlineUsers (snd (socket_onmessage ws user desc w (RoomUsers users)))
     = filter (\<lambda>u. u_id u \<noteq> u_id user) users \<and>
   set (onlineUsers (snd (socket_onmessage ws user desc w (RoomUsers users))))
     = set users - {u. u_id u = u_id user} \<and>
   u_id user \<notin> u_id ` set (onlineUsers (snd (socket_onmessage ws user desc w (RoomUsers users))))"
  by (auto simp: socket_onmessage_def)

theorem room_users_excludes_self_witness:
  "onlineUsers (snd (socket_onmessage (Some 7) demo_user ''d'' initial_world
      (RoomUsers [\<lparr>u_id = 1, u_username = ''alice''\<rparr>, \<lparr>u_id = 2, u_username = ''bob''\<rparr>,
                  \<lparr>u_id = 3, u_username = ''carol''\<rparr>])))
     = [\<lparr>u_id = 1, u_username = ''alice''\<rparr>, \<lparr>u_id = 3, u_username = ''carol''\<rparr>]"
  using room_users_excludes_self [of "Some 7" demo_user "''d''" initial_world
      "[\<lparr>u_id = 1, u_username = ''alice''\<rparr>, \<lparr>u_id = 2, u_username = ''bob''\<rparr>,
        \<lparr>u_id = 3, u_username = ''carol''\<rparr>]"]
  by (simp add: demo_user_def)

section \<open>Transfer handshake\<close>

text \<open>
  C10. \<^verbatim>\<open>sendFile\<close> changes nothing when the signalling socket or the file is absent:
  no message is sent and no transfer is recorded. Otherwise it appends exactly one
  \<^verbatim>\<open>transfer-request\<close> for the target, carrying the file's name, size and type, to the
  socket output and records a sending transfer with progress 0; nothing else changes.
\<close>

theorem sendFile_request:
  "(ws = None \<or> fl = None \<longrightarrow> sendFile ws fl targetUserId w = w) \<and>
   (\<forall>sock f. ws = Some sock \<and> fl = Some f \<longrightarrow>
      sendFile ws fl targetUserId w =
        w\<lparr>effects := effects w @
              [WsSend sock (OutTransferRequest targetUserId (f_name f) (int (f_size f)) (f_type f))],
          activeTransfer :=
              Some \<lparr>t_fileName = Some (f_name f), t_fileSize = Some (int (f_size f)),
                    t_progress = Num 0, t_type = Some Sending, t_file = Some f,
                    t_targetUserId = Some targetUserId\<rparr>\<rparr>)"
  by (auto simp: sendFile_def emit_def split: option.splits)

theorem sendFile_request_witness:
  "sendFile None (Some demo_file) 2 initial_world = initial_world \<and>
   sendFile (Some 7) None 2 initial_world = initial_world \<and>
   effects (sendFile (Some 7) (Some demo_file) 2 initial_world)
     = [WsSend 7 (OutTransferRequest 2 ''a.txt'' 3 ''text/plain'')] \<and>
   map_option t_progress (activeTransfer (sendFile (Some 7) (Some demo_file) 2 initial_world))
     = Some (Num 0)"
  using sendFile_request [of None "Some demo_file" 2 initial_world]
    sendFile_request [of "Some 7" None 2 initial_world]
    sendFile_request [of "Some 7" "Some demo_file" 2 initial_world]
  by (simp add: initial_world_def demo_file_def f_size_def)

text \<open>
  C4. When a \<^verbatim>\<open>transfer-response\<close> with \<^verbatim>\<open>accepted: false\<close> arrives, the sender's handler
  completes without raising, shows the notice \<^verbatim>\<open>Transfer rejected by recipient\<close>, removes
  the active transfer and writes nothing to the signalling socket. On the receiver,
  \<^verbatim>\<open>rejectTransfer\<close> writes the rejecting response and no offer. More generally, the only
  signalling message whose handling writes an offer is an accepted response.
\<close>

theorem reject_sends_no_offer:
  "socket_onmessage ws user desc w (TransferResponse from False)
     = (None, w\<lparr>effects := effects w @ [ToastError ''Transfer rejected by recipient''],
               activeTransfer := None\<rparr>) \<and>
   filter is_ws_send (effects (snd (socket_onmessage ws user desc w (TransferResponse from False))))
     = filter is_ws_send (effects w) \<and>
   filter is_offer (effects (rejectTransfer ws w)) = filter is_offer (effects w) \<and>
   (\<forall>sock inc. ws = Some sock \<and> incomingTransfer w = Some inc \<longrightarrow>
      effects (rejectTransfer ws w)
        = effects w @ [WsSend sock (OutTransferResponse (i_from inc) False)]) \<and>
   (\<forall>m. (\<forall>f. m \<noteq> TransferResponse f True) \<longrightarrow>
      filter is_offer (effects (snd (socket_onmessage ws user desc w m)))
        = filter is_offer (effects w))"
proof (intro conjI allI impI)
  show "socket_onmessage ws user desc w (TransferResponse from False)
     = (None, w\<lparr>effects := effects w @ [ToastError ''Transfer rejected by recipient''],
               activeTransfer := None\<rparr>)"
    by (simp add: socket_onmessage_def emit_def)
  show "filter is_ws_send (effects (snd (socket_onmessage ws user desc w (TransferResponse from False))))
     = filter is_ws_send (effects w)"
    by (simp add: socket_onmessage_def emit_def)
  show "filter is_offer (effects (rejectTransfer ws w)) = filter is_offer (effects w)"
    by (simp add: rejectTransfer_def emit_def split: option.splits)
next
  fix sock inc
  assume "ws = Some sock \<and> incomingTransfer w = Some inc"
  then show "effects (rejectTransfer ws w)
        = effects w @ [WsSend sock (OutTransferResponse (i_from inc) False)]"
    by (simp add: rejectTransfer_def emit_def)
next
  fix m
  assume "\<forall>f. m \<noteq> TransferResponse f True"
  then show "filter is_offer (effects (snd (socket_onmessage ws user desc w m)))
        = filter is_offer (effects w)"
    by (cases m) (auto simp: socket_onmessage_def emit_def handleOffer_def handleAnswer_def
        handleIceCandidate_def createPeerConnection_def update_pc_def ws_send_def Let_def
        split: option.splits)
qed

theorem reject_sends_no_offer_witness:
  "activeTransfer pending_world \<noteq> None \<and>
   socket_onmessage (Some 7) demo_user ''d'' pending_world (TransferResponse 2 False)
     = (None, pending_world
          \<lparr>effects := effects pending_world @ [ToastError ''Transfer rejected by recipient''],
           activeTransfer := None\<rparr>) \<and>
   filter is_offer (effects (snd (socket_onmessage (Some 7) demo_user ''d'' pending_world
      (Offer 1 ''sdp-offer'')))) = [] \<and>
   effects (rejectTransfer (Some 7) incoming_world) = [WsSend 7 (OutTransferResponse 1 False)]"
proof -
  have a: "activeTransfer pending_world \<noteq> None"
    by (simp add: pending_world_def sendFile_def emit_def)
  have b: "\<forall>f. Offer 1 ''sdp-offer'' \<noteq> TransferResponse f True"
    by simp
  have c: "filter is_offer (effects pending_world) = []"
    by (simp add: pending_world_def sendFile_def emit_def initial_world_def)
  have i: "incomingTransfer incoming_world =
      Some \<lparr>i_from = 1, i_from_username = ''alice'', i_fileName = ''a.txt'', i_fileSize = 3,
            i_fileType = ''text/plain''\<rparr>"
    by (simp add: incoming_world_def socket_onmessage_def)
  have e: "effects incoming_world = []"
    by (simp add: incoming_world_def socket_onmessage_def initial_world_def)
  show ?thesis
    using a b c i e reject_sends_no_offer [of "Some 7" demo_user "''d''" pending_world 2]
      reject_sends_no_offer [of "Some 7" demo_user "''d''" incoming_world 2]
    by simp
qed

section \<open>Negotiation\<close>

text \<open>
  C6. An offer delivered to the handler that the mount effect installed. The handler was
  created by \<^verbatim>\<open>connectWebSocket\<close> in the render of the initial state, where \<^verbatim>\<open>ws\<close> is
  \<^verbatim>\<open>null\<close>, and keeps that value after \<^verbatim>\<open>onopen\<close> has stored the socket in the state
  cell. On an offer it creates the connection, ingests the offer and produces the answer,
  and then throws at \<^verbatim>\<open>ws.send\<close>: no answer is written to the socket.
\<close>

theorem handleOffer_stale_socket_no_answer:
  "ws_state (socket_onopen 7 initial_world) = Some 7 \<and>
   connectWebSocket initial_world demo_user ''sdp-answer''
       (socket_onopen 7 initial_world) (Offer 1 ''sdp-offer'')
     = (Some (TypeError ''Cannot read properties of null (reading send)''),
        (socket_onopen 7 initial_world)
          \<lparr>peerConnectionRef :=
              Some \<lparr>pc_id = 0, pc_target = 1, remoteDescription = Some ''sdp-offer'',
                    localDescription = Some ''sdp-answer'', iceCandidates = []\<rparr>,
           next_id := 1,
           effects := [NewPeerConnection 0]\<rparr>)"
  by (simp add: connectWebSocket_def socket_onmessage_def handleOffer_null_socket
      socket_onopen_def initial_world_def)

text \<open>
  C7. Processing an \<^verbatim>\<open>ice-candidate\<close> message twice allocates nothing: the allocation
  counter, the data channel reference, the identity of the connection in
  \<^verbatim>\<open>peerConnectionRef\<close> and the effect trace are what they were. When the connection
  exists and has a remote description, neither processing raises, and the only change to
  the world is that the candidate has been added to that connection, once per receipt.
\<close>

theorem ice_candidate_repeat:
  "(let r1 = socket_onmessage ws user desc w (IceCandidate from cand);
        r2 = socket_onmessage ws user desc (snd r1) (IceCandidate from cand)
    in next_id (snd r2) = next_id w \<and>
       dataChannelRef (snd r2) = dataChannelRef w \<and>
       effects (snd r2) = effects w \<and>
       map_option pc_id (peerConnectionRef (snd r2)) = map_option pc_id (peerConnectionRef w) \<and>
       (\<forall>pc d. peerConnectionRef w = Some pc \<and> remoteDescription pc = Some d \<longrightarrow>
          fst r1 = None \<and> fst r2 = None \<and>
          snd r2 = w\<lparr>peerConnectionRef :=
                       Some (pc\<lparr>iceCandidates := iceCandidates pc @
                                  (case cand of None \<Rightarrow> [] | Some c \<Rightarrow> [c, c])\<rparr>)\<rparr>))"
  by (auto simp: socket_onmessage_def handleIceCandidate_def update_pc_def Let_def
      split: option.splits)

theorem ice_candidate_repeat_witness:
  "(\<exists>pc d. peerConnectionRef established_world = Some pc \<and> remoteDescription pc = Some d) \<and>
   (let r1 = socket_onmessage (Some 7) demo_user ''d'' established_world
               (IceCandidate 1 (Some ''cand''));
        r2 = socket_onmessage (Some 7) demo_user ''d'' (snd r1) (IceCandidate 1 (Some ''cand''))
    in fst r1 = None \<and> fst r2 = None \<and> next_id (snd r2) = next_id established_world \<and>
       map_option iceCandidates (peerConnectionRef (snd r2)) = Some [''cand'', ''cand''])"
proof -
  have e: "peerConnectionRef established_world =
      Some \<lparr>pc_id = 0, pc_target = 1, remoteDescription = Some ''sdp-offer'',
            localDescription = Some ''sdp-answer'', iceCandidates = []\<rparr>"
    by (simp add: established_world_def handleOffer_connected initial_world_def)
  show ?thesis
    using e ice_candidate_repeat [of "Some 7" demo_user "''d''" established_world 1 "Some ''cand''"]
    by (simp add: Let_def)
qed

text \<open>
  C5. The sender has a pending transfer and a channel that is still connecting; the
  20000 ms timer fires before the channel opens. \<^verbatim>\<open>startFileTransfer\<close> returns without
  raising and without writing any frame to the channel, after an error toast and a console
  message; the active transfer is still the pending one.
\<close>

theorem open_timeout_keeps_transfer:
  "activeTransfer pending_world \<noteq> None \<and>
   startFileTransfer demo_user ''tok'' TimerFired FetchRejected pending_world
     = (None, pending_world
          \<lparr>effects := effects pending_world @
             [AddOpenListener 1, SetTimeout 20000 RejectOpenWait,
              ToastError ''Data channel failed to open'',
              ConsoleError ''Data channel open timeout'']\<rparr>) \<and>
   activeTransfer (snd (startFileTransfer demo_user ''tok'' TimerFired FetchRejected pending_world))
     = activeTransfer pending_world \<and>
   sent_frames 1 (effects (snd (startFileTransfer demo_user ''tok'' TimerFired FetchRejected
      pending_world))) = []"
  by (simp add: pending_world_def sendFile_def startFileTransfer_def emit_def Let_def
      initial_world_def)

section \<open>Persistence\<close>

text \<open>
  C8. When \<^verbatim>\<open>file-end\<close> is handled on the receiver, the artifact is handed to the
  download link, the success toast is shown and the active transfer is cleared before the
  persistence call; the call adds one \<^verbatim>\<open>fetch\<close> to the trace and, if the request is
  rejected, one console message, and nothing else. The sender's completion likewise
  consists of the \<^verbatim>\<open>file-end\<close> frame, the success toast, one \<^verbatim>\<open>fetch\<close> and the clearing
  timer, followed by the console message if the request is rejected. Whatever the outcome
  of the request, both handlers return the same result and the same world up to console
  output: nothing is rolled back and nothing is sent again.
\<close>

theorem persistence_failure_independent:
  "(\<forall>m. transferMetaRef w = Some m \<longrightarrow>
      channel_onmessage user token fo w (TextFrame FileEnd) =
        (None, (file_end_complete m w)
                 \<lparr>effects := effects (file_end_complete m w) @
                    FetchPost \<lparr>l_fileName = m_fileName m, l_fileSize = m_fileSize m,
                               l_fileType = m_fileType m, l_sender_id = m_senderId m,
                               l_receiver_id = Some (u_id user)\<rparr> token #
                    (case fo of FetchResolved st \<Rightarrow> []
                     | FetchRejected \<Rightarrow> [ConsoleError ''Failed to log transfer:''])\<rparr>) \<and>
      activeTransfer (file_end_complete m w) = None \<and>
      effects (file_end_complete m w) = effects w @
        [Download (m_fileName m) (m_fileType m) (concat (receivedBufferRef w)),
         ToastSuccess ''File received successfully!'']) \<and>
   (\<forall>ch. dataChannelRef w = Some ch \<and> readyState ch = Opened \<longrightarrow>
      finish_send user token fo fl tgt w =
        (None, w\<lparr>effects := effects w @
                  [ChanSend (ch_id ch) (TextFrame FileEnd),
                   ToastSuccess ''File sent successfully!'',
                   FetchPost \<lparr>l_fileName = f_name fl, l_fileSize = int (f_size fl),
                              l_fileType = f_type fl, l_sender_id = u_id user,
                              l_receiver_id = tgt\<rparr> token,
                   SetTimeout 2000 ClearActiveTransfer] @
                  (case fo of FetchResolved st \<Rightarrow> []
                   | FetchRejected \<Rightarrow> [ConsoleError ''Failed to log transfer:''])\<rparr>)) \<and>
   (\<forall>fo' fr. fst (channel_onmessage user token fo w fr) = fst (channel_onmessage user token fo' w fr) \<and>
      without_console (snd (channel_onmessage user token fo w fr))
        = without_console (snd (channel_onmessage user token fo' w fr))) \<and>
   (\<forall>fo'. fst (finish_send user token fo fl tgt w) = fst (finish_send user token fo' fl tgt w) \<and>
      without_console (snd (finish_send user token fo fl tgt w))
        = without_console (snd (finish_send user token fo' fl tgt w)))"
proof (intro conjI allI impI)
  fix m assume "transferMetaRef w = Some m"
  then show "channel_onmessage user token fo w (TextFrame FileEnd) =
        (None, (file_end_complete m w)
                 \<lparr>effects := effects (file_end_complete m w) @
                    FetchPost \<lparr>l_fileName = m_fileName m, l_fileSize = m_fileSize m,
                               l_fileType = m_fileType m, l_sender_id = m_senderId m,
                               l_receiver_id = Some (u_id user)\<rparr> token #
                    (case fo of FetchResolved st \<Rightarrow> []
                     | FetchRejected \<Rightarrow> [ConsoleError ''Failed to log transfer:''])\<rparr>)"
    by (simp add: channel_onmessage_def logTransfer_effects)
next
  fix m show "activeTransfer (file_end_complete m w) = None"
    by (simp add: file_end_complete_def emit_def)
next
  fix m show "effects (file_end_complete m w) = effects w @
        [Download (m_fileName m) (m_fileType m) (concat (receivedBufferRef w)),
         ToastSuccess ''File received successfully!'']"
    by (simp add: file_end_complete_def emit_def)
next
  fix ch assume "dataChannelRef w = Some ch \<and> readyState ch = Opened"
  then show "finish_send user token fo fl tgt w =
        (None, w\<lparr>effects := effects w @
                  [ChanSend (ch_id ch) (TextFrame FileEnd),
                   ToastSuccess ''File sent successfully!'',
                   FetchPost \<lparr>l_fileName = f_name fl, l_fileSize = int (f_size fl),
                              l_fileType = f_type fl, l_sender_id = u_id user,
                              l_receiver_id = tgt\<rparr> token,
                   SetTimeout 2000 ClearActiveTransfer] @
                  (case fo of FetchResolved st \<Rightarrow> []
                   | FetchRejected \<Rightarrow> [ConsoleError ''Failed to log transfer:''])\<rparr>)"
    by (simp add: finish_send_def chan_send_def logTransfer_start_def logTransfer_settle_def
        emit_def split: fetch_outcome.splits)
next
  fix fo' fr
  show "fst (channel_onmessage user token fo w fr) = fst (channel_onmessage user token fo' w fr)"
    by (simp add: channel_onmessage_def Let_def split: frame.splits ctrl.splits option.splits)
  show "without_console (snd (channel_onmessage user token fo w fr))
        = without_console (snd (channel_onmessage user token fo' w fr))"
    by (simp add: channel_onmessage_def Let_def logTransfer_effects without_console_def
        split: frame.splits ctrl.splits option.splits fetch_outcome.splits)
next
  fix fo'
  show "fst (finish_send user token fo fl tgt w) = fst (finish_send user token fo' fl tgt w)"
    by (simp add: finish_send_def chan_send_def split: option.splits)
  show "without_console (snd (finish_send user token fo fl tgt w))
        = without_console (snd (finish_send user token fo' fl tgt w))"
    by (simp add: finish_send_def chan_send_def logTransfer_start_def logTransfer_settle_def
        emit_def without_console_def split: option.splits fetch_outcome.splits)
qed

theorem persistence_failure_independent_witness:
  "transferMetaRef receiving_world = Some demo_meta \<and>
   fst (channel_onmessage demo_user ''tok'' FetchRejected receiving_world (TextFrame FileEnd))
     = None \<and>
   activeTransfer (snd (channel_onmessage demo_user ''tok'' FetchRejected receiving_world
      (TextFrame FileEnd))) = None \<and>
   effects (snd (channel_onmessage demo_user ''tok'' FetchRejected receiving_world
      (TextFrame FileEnd)))
     = [Download ''a.txt'' ''text/plain'' [1, 2, 3],
        ToastSuccess ''File received successfully!'',
        FetchPost \<lparr>l_fileName = ''a.txt'', l_fileSize = 3, l_fileType = ''text/plain'',
                   l_sender_id = 1, l_receiver_id = Some 2\<rparr> ''tok'',
        ConsoleError ''Failed to log transfer:''] \<and>
   finish_send demo_user ''tok'' FetchRejected empty_file (Some 2) empty_send_world
     = (None, empty_send_world
          \<lparr>effects := effects empty_send_world @
             [ChanSend 1 (TextFrame FileEnd), ToastSuccess ''File sent successfully!'',
              FetchPost \<lparr>l_fileName = ''empty.txt'', l_fileSize = 0,
                         l_fileType = ''text/plain'', l_sender_id = 2,
                         l_receiver_id = Some 2\<rparr> ''tok'',
              SetTimeout 2000 ClearActiveTransfer,
              ConsoleError ''Failed to log transfer:'']\<rparr>)"
proof -
  have m: "transferMetaRef receiving_world = Some demo_meta"
    by (simp add: receiving_world_def channel_onmessage_def Let_def)
  have b: "receivedBufferRef receiving_world = [[1, 2], [3]]"
    by (simp add: receiving_world_def channel_onmessage_def Let_def initial_world_def)
  have e: "effects receiving_world = []"
    by (simp add: receiving_world_def channel_onmessage_def Let_def initial_world_def)
  have c: "dataChannelRef empty_send_world =
      Some \<lparr>ch_id = 1, ch_label = ''fileTransfer'', readyState = Opened\<rparr>"
    by (simp add: empty_send_world_def)
  have recv: "fst (channel_onmessage demo_user ''tok'' FetchRejected receiving_world (TextFrame FileEnd))
     = None \<and>
   activeTransfer (snd (channel_onmessage demo_user ''tok'' FetchRejected receiving_world
      (TextFrame FileEnd))) = None \<and>
   effects (snd (channel_onmessage demo_user ''tok'' FetchRejected receiving_world
      (TextFrame FileEnd)))
     = [Download ''a.txt'' ''text/plain'' [1, 2, 3],
        ToastSuccess ''File received successfully!'',
        FetchPost \<lparr>l_fileName = ''a.txt'', l_fileSize = 3, l_fileType = ''text/plain'',
                   l_sender_id = 1, l_receiver_id = Some 2\<rparr> ''tok'',
        ConsoleError ''Failed to log transfer:'']"
    using m b e persistence_failure_independent
      [of receiving_world demo_user "''tok''" FetchRejected demo_file None]
    by (simp add: demo_meta_def demo_user_def)
  have send: "finish_send demo_user ''tok'' FetchRejected empty_file (Some 2) empty_send_world
     = (None, empty_send_world
          \<lparr>effects := effects empty_send_world @
             [ChanSend 1 (TextFrame FileEnd), ToastSuccess ''File sent successfully!'',
              FetchPost \<lparr>l_fileName = ''empty.txt'', l_fileSize = 0,
                         l_fileType = ''text/plain'', l_sender_id = 2,
                         l_receiver_id = Some 2\<rparr> ''tok'',
              SetTimeout 2000 ClearActiveTransfer,
              ConsoleError ''Failed to log transfer:'']\<rparr>)"
    using c persistence_failure_independent
      [of empty_send_world demo_user "''tok''" FetchRejected empty_file "Some 2"]
    by (simp add: empty_file_def demo_user_def f_size_def)
  from m recv send show ?thesis by blast
qed

end
